theory Spec2Isabelle
  imports Main
begin

section \<open>Data model\<close>

text \<open>
  Version identifiers are the strings the repositories hand out (\<^verbatim>\<open>"14"\<close>,
  \<^verbatim>\<open>"0.10"\<close>, \<^verbatim>\<open>"14.15.0"\<close>); \<^verbatim>\<open>String(version)\<close> is
  the identity on them. An instant is \<^verbatim>\<open>Date.getTime()\<close>, the milliseconds since
  the epoch, as an integer; a date that does not parse is outside the model.
\<close>

type_synonym version = string
type_synonym instant = int

text \<open>
  \<^verbatim>\<open>NodeScheduleInformation\<close>: the dates of one release line. The source tests every
  date for presence before it reads it (\<^verbatim>\<open>if (!start || !end) return false\<close>), so
  all four are optional here; the declared type makes \<^verbatim>\<open>start\<close> and \<^verbatim>\<open>end\<close>
  always present.
\<close>

record NodeScheduleInformation =
  s_start :: "instant option"
  s_end :: "instant option"
  s_lts :: "instant option"
  s_maintenance :: "instant option"

text \<open>
  \<^verbatim>\<open>NodeReleaseInformation\<close>: the fields of an absolute release that the source reads.
  \<open>r_lts\<close> is \<open>Some label\<close> exactly when \<^verbatim>\<open>typeof lts === 'string'\<close>.
\<close>

record NodeReleaseInformation =
  r_date :: "instant option"
  r_lts :: "string option"

text \<open>
  Every \<^verbatim>\<open>throw\<close> of the source is a value: \<open>MustAwaitPreload f\<close> is the error
  \<^verbatim>\<open>You must await [preloadNodeVersions] prior to using the [f] filter.\<close>, and
  \<open>CollaboratorError\<close> is whatever an external package throws (a failed fetch, a lookup of
  an identifier that its repository does not hold).
\<close>

datatype error = MustAwaitPreload string | CollaboratorError string

text \<open>
  The external packages the source imports, as parameters: the comparator
  (\<^verbatim>\<open>version-compare\<close>), the range evaluator (\<^verbatim>\<open>version-range\<close>), and the two
  repositories (\<^verbatim>\<open>@bevry/nodejs-schedule\<close>, \<^verbatim>\<open>@bevry/nodejs-releases\<close>) with the
  outcome of awaiting their preload (\<open>None\<close>: resolved, \<open>Some e\<close>: rejected with \<open>e\<close>).
\<close>

record collaborators =
  versionCompare :: "version \<Rightarrow> version \<Rightarrow> int"
  withinRange :: "version \<Rightarrow> string \<Rightarrow> bool"
  preloadNodeSchedule :: "error option"
  preloadNodeReleases :: "error option"
  getNodeScheduleIdentifiers :: "version list"
  getNodeScheduleInformation :: "version \<Rightarrow> error + NodeScheduleInformation"
  getNodeReleaseIdentifiers :: "version list"
  getNodeReleaseInformation :: "version \<Rightarrow> error + NodeReleaseInformation"

text \<open>
  The module's variables: \<^verbatim>\<open>preloaded\<close>, the three aggregates (declared without an
  initialiser, so \<^verbatim>\<open>undefined\<close> until assigned: \<open>None\<close>) and the reference clock
  \<^verbatim>\<open>now\<close>.
\<close>

record state =
  preloaded :: bool
  nodeVersionLatestCurrent :: "version option"
  nodeVersionLatestActive :: "version option"
  nodeVersionLatestMaintenance :: "version option"
  now :: instant

text \<open>The module as loaded at wall-clock time \<open>t\<close>.\<close>

definition initial_state :: "instant \<Rightarrow> state" where
  "initial_state t =
     \<lparr>preloaded = False, nodeVersionLatestCurrent = None, nodeVersionLatestActive = None,
      nodeVersionLatestMaintenance = None, now = t\<rparr>"

text \<open>\<^verbatim>\<open>datetime(when?)\<close>: read the clock, or set it and read it.\<close>

definition datetime :: "instant option \<Rightarrow> state \<Rightarrow> instant \<times> state" where
  "datetime when st =
     (case when of None \<Rightarrow> (now st, st) | Some w \<Rightarrow> (w, st\<lparr>now := w\<rparr>))"

section \<open>Helpers\<close>

text \<open>\<^verbatim>\<open>s.split('.')\<close>: the pieces between the dots; one piece for a string without a dot.\<close>

fun split_on :: "char \<Rightarrow> string \<Rightarrow> string list" where
  "split_on c [] = [[]]"
| "split_on c (x # xs) =
     (if x = c then [] # split_on c xs
      else (case split_on c xs of [] \<Rightarrow> [[x]] | p # ps \<Rightarrow> (x # p) # ps))"

definition isAbsoluteVersion :: "version \<Rightarrow> bool" where
  "isAbsoluteVersion version = (length (split_on (CHR ''.'') version) = 3)"

text \<open>\<^verbatim>\<open>a || b\<close> on values that are a \<^verbatim>\<open>Date\<close> or \<^verbatim>\<open>undefined\<close>.\<close>

definition or_else :: "'a option \<Rightarrow> 'a option \<Rightarrow> 'a option" where
  "or_else a b = (case a of Some x \<Rightarrow> Some x | None \<Rightarrow> b)"

text \<open>
  The tail shared by the date-window predicates:
  \<^verbatim>\<open>if (!start || !end) return false; return now >= start.getTime() && now <= end.getTime()\<close>.
\<close>

definition in_window :: "instant option \<Rightarrow> instant option \<Rightarrow> instant \<Rightarrow> bool" where
  "in_window start end t =
     (case start of None \<Rightarrow> False
      | Some s \<Rightarrow> (case end of None \<Rightarrow> False | Some e \<Rightarrow> s \<le> t \<and> t \<le> e))"

text \<open>
  Modelled from the spec: \<^verbatim>\<open>last\<close> of the external package \<^verbatim>\<open>@bevry/list\<close>, whose
  code is not among the sources. It gives the last element of an array; an empty array
  has none, and the result is \<^verbatim>\<open>undefined\<close>.
\<close>

definition last_of :: "'a list \<Rightarrow> 'a option" where
  "last_of xs = (if xs = [] then None else Some (last xs))"

text \<open>
  \<^verbatim>\<open>xs.filter(p)\<close> with a callback that may throw: the callback runs on every element in
  order, and the first throw ends the call.
\<close>

fun filter_throwing :: "('a \<Rightarrow> error + bool) \<Rightarrow> 'a list \<Rightarrow> error + 'a list" where
  "filter_throwing p [] = Inr []"
| "filter_throwing p (x # xs) =
     (case p x of
        Inl e \<Rightarrow> Inl e
      | Inr b \<Rightarrow>
          (case filter_throwing p xs of
             Inl e \<Rightarrow> Inl e
           | Inr ys \<Rightarrow> Inr (if b then x # ys else ys)))"

section \<open>Safe schedule lookup\<close>

definition getNodeScheduleInformationSafe ::
  "collaborators \<Rightarrow> version \<Rightarrow> error + NodeScheduleInformation option" where
  "getNodeScheduleInformationSafe env version =
     (if versionCompare env version ''0.8'' = - 1
         \<or> versionCompare env version ''0.9'' = 0
         \<or> versionCompare env version ''0.11'' = 0
      then Inr None
      else (case getNodeScheduleInformation env version of
              Inl e \<Rightarrow> Inl e
            | Inr meta \<Rightarrow> Inr (Some meta)))"

section \<open>Predicates\<close>

definition isNodeVersionThese :: "collaborators \<Rightarrow> version \<Rightarrow> version list \<Rightarrow> bool" where
  "isNodeVersionThese env version these =
     (case find (\<lambda>seek. versionCompare env version seek = 0) these of
        None \<Rightarrow> False
      | Some seek \<Rightarrow> seek \<noteq> [])"

definition isNodeVersionBetween :: "collaborators \<Rightarrow> version \<Rightarrow> version \<times> version \<Rightarrow> bool" where
  "isNodeVersionBetween env version tuple =
     (versionCompare env version (fst tuple) \<ge> 0 \<and> versionCompare env version (snd tuple) \<le> 0)"

definition isNodeVersionLatestActive :: "state \<Rightarrow> collaborators \<Rightarrow> version \<Rightarrow> error + bool" where
  "isNodeVersionLatestActive st env version =
     (case nodeVersionLatestActive st of
        None \<Rightarrow> Inl (MustAwaitPreload ''isNodeVersionLatestActive'')
      | Some latest \<Rightarrow> Inr (versionCompare env version latest = 0))"

definition isNodeVersionLatestCurrent :: "state \<Rightarrow> collaborators \<Rightarrow> version \<Rightarrow> error + bool" where
  "isNodeVersionLatestCurrent st env version =
     (case nodeVersionLatestCurrent st of
        None \<Rightarrow> Inl (MustAwaitPreload ''isNodeVersionLatestCurrent'')
      | Some latest \<Rightarrow> Inr (versionCompare env version latest = 0))"

definition isNodeVersionLatestMaintenance :: "state \<Rightarrow> collaborators \<Rightarrow> version \<Rightarrow> error + bool" where
  "isNodeVersionLatestMaintenance st env version =
     (case nodeVersionLatestMaintenance st of
        None \<Rightarrow> Inl (MustAwaitPreload ''isNodeVersionLatestMaintenance'')
      | Some latest \<Rightarrow> Inr (versionCompare env version latest = 0))"

definition isNodeVersionLTE :: "collaborators \<Rightarrow> version \<Rightarrow> version \<Rightarrow> bool" where
  "isNodeVersionLTE env version seek = (versionCompare env version seek \<le> 0)"

definition isNodeVersionGTE :: "collaborators \<Rightarrow> version \<Rightarrow> version \<Rightarrow> bool" where
  "isNodeVersionGTE env version seek = (versionCompare env version seek \<ge> 0)"

definition isNodeVersionWithinRange :: "collaborators \<Rightarrow> version \<Rightarrow> string \<Rightarrow> bool" where
  "isNodeVersionWithinRange env version range_expr = withinRange env version range_expr"

definition isNodeVersionActive :: "state \<Rightarrow> collaborators \<Rightarrow> version \<Rightarrow> error + bool" where
  "isNodeVersionActive st env version =
     (if \<not> preloaded st then Inl (MustAwaitPreload ''isNodeVersionActive'')
      else
        (case (if isAbsoluteVersion version
               then (case getNodeReleaseInformation env version of
                       Inl e \<Rightarrow> Inl e
                     | Inr release \<Rightarrow> Inr (r_lts release \<noteq> None))
               else Inr True) of
           Inl e \<Rightarrow> Inl e
         | Inr labelled \<Rightarrow>
             if \<not> labelled then Inr False
             else
               (case getNodeScheduleInformationSafe env version of
                  Inl e \<Rightarrow> Inl e
                | Inr None \<Rightarrow> Inr False
                | Inr (Some meta) \<Rightarrow>
                    Inr (in_window (s_lts meta) (or_else (s_maintenance meta) (s_end meta))
                           (now st)))))"

definition isNodeVersionActiveOrCurrent :: "state \<Rightarrow> collaborators \<Rightarrow> version \<Rightarrow> error + bool" where
  "isNodeVersionActiveOrCurrent st env version =
     (if \<not> preloaded st then Inl (MustAwaitPreload ''isNodeVersionActiveOrCurrent'')
      else
        (case getNodeScheduleInformationSafe env version of
           Inl e \<Rightarrow> Inl e
         | Inr None \<Rightarrow> Inr False
         | Inr (Some meta) \<Rightarrow>
             Inr (in_window (s_start meta) (or_else (s_maintenance meta) (s_end meta))
                    (now st))))"

definition isNodeVersionReleased :: "state \<Rightarrow> collaborators \<Rightarrow> version \<Rightarrow> error + bool" where
  "isNodeVersionReleased st env version =
     (if \<not> preloaded st then Inl (MustAwaitPreload ''isNodeVersionReleased'')
      else
        (case (if isAbsoluteVersion version
               then (case getNodeReleaseInformation env version of
                       Inl e \<Rightarrow> Inl e
                     | Inr release \<Rightarrow> Inr (Some (r_date release)))
               else (case getNodeScheduleInformationSafe env version of
                       Inl e \<Rightarrow> Inl e
                     | Inr None \<Rightarrow> Inr None
                     | Inr (Some meta) \<Rightarrow> Inr (Some (s_start meta)))) of
           Inl e \<Rightarrow> Inl e
         | Inr None \<Rightarrow> Inr False
         | Inr (Some None) \<Rightarrow> Inr False
         | Inr (Some (Some date)) \<Rightarrow> Inr (date \<le> now st)))"

definition isNodeVersionCurrent :: "state \<Rightarrow> collaborators \<Rightarrow> version \<Rightarrow> error + bool" where
  "isNodeVersionCurrent st env version =
     (if \<not> preloaded st then Inl (MustAwaitPreload ''isNodeVersionCurrent'')
      else
        (case getNodeScheduleInformationSafe env version of
           Inl e \<Rightarrow> Inl e
         | Inr None \<Rightarrow> Inr False
         | Inr (Some meta) \<Rightarrow>
             Inr (in_window (s_start meta)
                    (or_else (s_lts meta) (or_else (s_maintenance meta) (s_end meta)))
                    (now st))))"

definition isNodeVersionESM :: "collaborators \<Rightarrow> version \<Rightarrow> bool" where
  "isNodeVersionESM env version = (versionCompare env version ''12'' \<ge> 0)"

definition isNodeVersionLTS :: "state \<Rightarrow> collaborators \<Rightarrow> version \<Rightarrow> error + bool" where
  "isNodeVersionLTS st env version =
     (if \<not> preloaded st then Inl (MustAwaitPreload ''isNodeVersionLTS'')
      else
        (case (if isAbsoluteVersion version \<and> versionCompare env version ''1'' \<ge> 0
               then (case getNodeReleaseInformation env version of
                       Inl e \<Rightarrow> Inl e
                     | Inr release \<Rightarrow> Inr (r_lts release \<noteq> None))
               else Inr True) of
           Inl e \<Rightarrow> Inl e
         | Inr labelled \<Rightarrow>
             if \<not> labelled then Inr False
             else
               (case getNodeScheduleInformationSafe env version of
                  Inl e \<Rightarrow> Inl e
                | Inr None \<Rightarrow> Inr False
                | Inr (Some meta) \<Rightarrow> Inr (s_lts meta \<noteq> None \<or> s_maintenance meta = None))))"

definition isNodeVersionMaintained :: "state \<Rightarrow> collaborators \<Rightarrow> version \<Rightarrow> error + bool" where
  "isNodeVersionMaintained st env version =
     (if \<not> preloaded st then Inl (MustAwaitPreload ''isNodeVersionMaintained'')
      else
        (case getNodeScheduleInformationSafe env version of
           Inl e \<Rightarrow> Inl e
         | Inr None \<Rightarrow> Inr False
         | Inr (Some meta) \<Rightarrow> Inr (in_window (s_start meta) (s_end meta) (now st))))"

definition isNodeVersionMaintainedOrLTS :: "state \<Rightarrow> collaborators \<Rightarrow> version \<Rightarrow> error + bool" where
  "isNodeVersionMaintainedOrLTS st env version =
     (if \<not> preloaded st then Inl (MustAwaitPreload ''isNodeVersionMaintainedOrLTS'')
      else
        (case getNodeScheduleInformationSafe env version of
           Inl e \<Rightarrow> Inl e
         | Inr None \<Rightarrow> Inr False
         | Inr (Some meta) \<Rightarrow>
             (case s_start meta of
                None \<Rightarrow> Inr False
              | Some start \<Rightarrow>
                  (case s_end meta of
                     None \<Rightarrow> Inr False
                   | Some end \<Rightarrow>
                       if \<not> start \<le> now st then Inr False
                       else if now st \<le> end then Inr True
                       else Inr (s_lts meta \<noteq> None \<or> s_maintenance meta = None)))))"

definition isNodeVersionMaintenance :: "state \<Rightarrow> collaborators \<Rightarrow> version \<Rightarrow> error + bool" where
  "isNodeVersionMaintenance st env version =
     (if \<not> preloaded st then Inl (MustAwaitPreload ''isNodeVersionMaintenance'')
      else
        (case getNodeScheduleInformationSafe env version of
           Inl e \<Rightarrow> Inl e
         | Inr None \<Rightarrow> Inr False
         | Inr (Some meta) \<Rightarrow> Inr (in_window (s_maintenance meta) (s_end meta) (now st))))"

definition isNodeVersionVercel :: "collaborators \<Rightarrow> version \<Rightarrow> bool" where
  "isNodeVersionVercel env version =
     (versionCompare env version ''10'' = 0
      \<or> versionCompare env version ''12'' = 0
      \<or> versionCompare env version ''14'' = 0)"

text \<open>
  The second implementation of the predicate in the repository (the older module, whose
  data comes from one combined schedule): its allow-list has two lines.
\<close>

definition isNodeVersionVercel_legacy :: "collaborators \<Rightarrow> version \<Rightarrow> bool" where
  "isNodeVersionVercel_legacy env version =
     (versionCompare env version ''10'' = 0 \<or> versionCompare env version ''12'' = 0)"

section \<open>Filter engine\<close>

text \<open>
  \<^verbatim>\<open>Filters\<close>: every key is optional. The source tests each key for truthiness only:
  an array or tuple is truthy when present, a string when present and not empty, a
  boolean when \<^verbatim>\<open>true\<close>.
\<close>

record Filters =
  f_these :: "version list option"
  f_between :: "(version \<times> version) option"
  f_lte :: "version option"
  f_gte :: "version option"
  f_range :: "string option"
  f_active :: "bool option"
  f_activeOrCurrent :: "bool option"
  f_current :: "bool option"
  f_esm :: "bool option"
  f_latestActive :: "bool option"
  f_latestCurrent :: "bool option"
  f_latestMaintenance :: "bool option"
  f_lts :: "bool option"
  f_maintained :: "bool option"
  f_maintainedOrLTS :: "bool option"
  f_maintenance :: "bool option"
  f_released :: "bool option"
  f_vercel :: "bool option"

definition truthy :: "bool option \<Rightarrow> bool" where
  "truthy b = (b = Some True)"

text \<open>
  One line \<^verbatim>\<open>if (filters.key && !predicate(version)) return false\<close> is a pair of the
  key's truthiness and the predicate's outcome; the lines run in order until one returns
  \<^verbatim>\<open>false\<close> or throws.
\<close>

fun run_checks :: "(bool \<times> (error + bool)) list \<Rightarrow> error + bool" where
  "run_checks [] = Inr True"
| "run_checks ((wanted, outcome) # rest) =
     (if wanted
      then (case outcome of
              Inl e \<Rightarrow> Inl e
            | Inr holds \<Rightarrow> if \<not> holds then Inr False else run_checks rest)
      else run_checks rest)"

definition check_present :: "'a option \<Rightarrow> ('a \<Rightarrow> bool) \<Rightarrow> bool \<times> (error + bool)" where
  "check_present key test =
     (case key of None \<Rightarrow> (False, Inr True) | Some v \<Rightarrow> (True, Inr (test v)))"

definition check_string :: "string option \<Rightarrow> (string \<Rightarrow> bool) \<Rightarrow> bool \<times> (error + bool)" where
  "check_string key test =
     (case key of None \<Rightarrow> (False, Inr True) | Some v \<Rightarrow> (v \<noteq> [], Inr (test v)))"

definition parametric_checks ::
  "collaborators \<Rightarrow> version \<Rightarrow> Filters \<Rightarrow> (bool \<times> (error + bool)) list" where
  "parametric_checks env version filters =
     [check_present (f_these filters) (isNodeVersionThese env version),
      check_present (f_between filters) (isNodeVersionBetween env version),
      check_string (f_lte filters) (isNodeVersionLTE env version),
      check_string (f_gte filters) (isNodeVersionGTE env version),
      check_string (f_range filters) (isNodeVersionWithinRange env version)]"

definition boolean_checks ::
  "state \<Rightarrow> collaborators \<Rightarrow> version \<Rightarrow> Filters \<Rightarrow> (bool \<times> (error + bool)) list" where
  "boolean_checks st env version filters =
     [(truthy (f_active filters), isNodeVersionActive st env version),
      (truthy (f_activeOrCurrent filters), isNodeVersionActiveOrCurrent st env version),
      (truthy (f_current filters), isNodeVersionCurrent st env version),
      (truthy (f_esm filters), Inr (isNodeVersionESM env version)),
      (truthy (f_latestActive filters), isNodeVersionLatestActive st env version),
      (truthy (f_latestCurrent filters), isNodeVersionLatestCurrent st env version),
      (truthy (f_latestMaintenance filters), isNodeVersionLatestMaintenance st env version),
      (truthy (f_lts filters), isNodeVersionLTS st env version),
      (truthy (f_maintained filters), isNodeVersionMaintained st env version),
      (truthy (f_maintainedOrLTS filters), isNodeVersionMaintainedOrLTS st env version),
      (truthy (f_maintenance filters), isNodeVersionMaintenance st env version),
      (truthy (f_released filters), isNodeVersionReleased st env version),
      (truthy (f_vercel filters), Inr (isNodeVersionVercel env version))]"

definition isNodeVersion :: "state \<Rightarrow> collaborators \<Rightarrow> version \<Rightarrow> Filters \<Rightarrow> error + bool" where
  "isNodeVersion st env version filters =
     run_checks (parametric_checks env version filters @ boolean_checks st env version filters)"

definition filterNodeVersions ::
  "state \<Rightarrow> collaborators \<Rightarrow> version list \<Rightarrow> Filters \<Rightarrow> error + version list" where
  "filterNodeVersions st env versions filters =
     filter_throwing (\<lambda>version. isNodeVersion st env version filters) versions"

definition filterSignificantNodeVersions ::
  "state \<Rightarrow> collaborators \<Rightarrow> Filters \<Rightarrow> error + version list" where
  "filterSignificantNodeVersions st env filters =
     (if \<not> preloaded st then Inl (MustAwaitPreload ''filterSignificantNodeVersions'')
      else filterNodeVersions st env (getNodeScheduleIdentifiers env) filters)"

definition filterAbsoluteNodeVersions ::
  "state \<Rightarrow> collaborators \<Rightarrow> Filters \<Rightarrow> error + version list" where
  "filterAbsoluteNodeVersions st env filters =
     (if \<not> preloaded st then Inl (MustAwaitPreload ''filterAbsoluteNodeVersions'')
      else filterNodeVersions st env (getNodeReleaseIdentifiers env) filters)"

text \<open>
  A configuration that uses boolean predicate keys only, and the conjunction of two
  configurations: a key is wanted by the conjunction when either configuration wants it.
\<close>

definition boolean_only :: "Filters \<Rightarrow> bool" where
  "boolean_only filters =
     (f_these filters = None \<and> f_between filters = None \<and> f_lte filters = None
      \<and> f_gte filters = None \<and> f_range filters = None)"

definition both_keys :: "bool option \<Rightarrow> bool option \<Rightarrow> bool option" where
  "both_keys a b = (if truthy a \<or> truthy b then Some True else None)"

definition merge_filters :: "Filters \<Rightarrow> Filters \<Rightarrow> Filters" where
  "merge_filters a b =
     \<lparr>f_these = None, f_between = None, f_lte = None, f_gte = None, f_range = None,
      f_active = both_keys (f_active a) (f_active b),
      f_activeOrCurrent = both_keys (f_activeOrCurrent a) (f_activeOrCurrent b),
      f_current = both_keys (f_current a) (f_current b),
      f_esm = both_keys (f_esm a) (f_esm b),
      f_latestActive = both_keys (f_latestActive a) (f_latestActive b),
      f_latestCurrent = both_keys (f_latestCurrent a) (f_latestCurrent b),
      f_latestMaintenance = both_keys (f_latestMaintenance a) (f_latestMaintenance b),
      f_lts = both_keys (f_lts a) (f_lts b),
      f_maintained = both_keys (f_maintained a) (f_maintained b),
      f_maintainedOrLTS = both_keys (f_maintainedOrLTS a) (f_maintainedOrLTS b),
      f_maintenance = both_keys (f_maintenance a) (f_maintenance b),
      f_released = both_keys (f_released a) (f_released b),
      f_vercel = both_keys (f_vercel a) (f_vercel b)\<rparr>"

definition no_filters :: Filters where
  "no_filters =
     \<lparr>f_these = None, f_between = None, f_lte = None, f_gte = None, f_range = None,
      f_active = None, f_activeOrCurrent = None, f_current = None, f_esm = None,
      f_latestActive = None, f_latestCurrent = None, f_latestMaintenance = None,
      f_lts = None, f_maintained = None, f_maintainedOrLTS = None, f_maintenance = None,
      f_released = None, f_vercel = None\<rparr>"

section \<open>Preload and the aggregates\<close>

text \<open>
  \<^verbatim>\<open>preloadNodeVersions\<close>: the outcome (\<open>None\<close>: resolved) and the module's variables
  as the call leaves them. A rejected collaborator preload leaves them untouched; a scan
  that throws leaves what was assigned before it.
\<close>

definition preloadNodeVersions :: "collaborators \<Rightarrow> state \<Rightarrow> error option \<times> state" where
  "preloadNodeVersions env st =
     (case preloadNodeSchedule env of
        Some e \<Rightarrow> (Some e, st)
      | None \<Rightarrow>
     (case preloadNodeReleases env of
        Some e \<Rightarrow> (Some e, st)
      | None \<Rightarrow>
     (let st1 = st\<lparr>preloaded := True\<rparr>;
          nodeVersionsList = getNodeScheduleIdentifiers env
      in case filter_throwing (isNodeVersionCurrent st1 env) nodeVersionsList of
           Inl e \<Rightarrow> (Some e, st1)
         | Inr currents \<Rightarrow>
     (let st2 = st1\<lparr>nodeVersionLatestCurrent := last_of currents\<rparr>
      in case filter_throwing (isNodeVersionActive st2 env) nodeVersionsList of
           Inl e \<Rightarrow> (Some e, st2)
         | Inr actives \<Rightarrow>
     (let st3 = st2\<lparr>nodeVersionLatestActive := last_of actives\<rparr>
      in case filter_throwing (isNodeVersionMaintenance st3 env) nodeVersionsList of
           Inl e \<Rightarrow> (Some e, st3)
         | Inr maintenances \<Rightarrow>
             (None, st3\<lparr>nodeVersionLatestMaintenance := last_of maintenances\<rparr>))))))"

section \<open>A concrete comparator and schedule\<close>

text \<open>
  Modelled from the spec: the Version Comparator, an external package whose code is not
  among the sources. The spec fixes it as a comparison of the numeric components, one by
  one, in which a line identifier compares equal to each of its own absolute releases:
  the components are compared over the shorter identifier's length. The spec leaves
  identifiers with a component that is not a number open; here a number ranks above it.
  Only the concrete examples below use this comparator: the general theorems hold for
  every comparator.
\<close>

definition digit_of :: "char \<Rightarrow> nat option" where
  "digit_of c =
     (if (48::nat) \<le> of_char c \<and> of_char c \<le> (57::nat) then Some (of_char c - 48) else None)"

fun number_from :: "nat \<Rightarrow> string \<Rightarrow> nat option" where
  "number_from acc [] = Some acc"
| "number_from acc (c # cs) =
     (case digit_of c of None \<Rightarrow> None | Some d \<Rightarrow> number_from (10 * acc + d) cs)"

definition component :: "string \<Rightarrow> nat option" where
  "component s = number_from 0 s"

definition ranks_above :: "nat option \<Rightarrow> nat option \<Rightarrow> bool" where
  "ranks_above a b =
     (case a of None \<Rightarrow> False
      | Some x \<Rightarrow> (case b of None \<Rightarrow> True | Some y \<Rightarrow> y < x))"

fun compare_components :: "nat option list \<Rightarrow> nat option list \<Rightarrow> int" where
  "compare_components (c # cs) (p # ps) =
     (if ranks_above c p then 1
      else if ranks_above p c then - 1
      else compare_components cs ps)"
| "compare_components [] ps = 0"
| "compare_components cs [] = 0"

definition compare_versions :: "version \<Rightarrow> version \<Rightarrow> int" where
  "compare_versions current other =
     compare_components (map component (split_on (CHR ''.'') current))
                        (map component (split_on (CHR ''.'') other))"

text \<open>
  An example world for the concrete cases: six release lines with the dates of the
  published schedule (UTC midnights, in milliseconds), and three absolute releases. An
  identifier resolves to the line it compares equal to; an identifier that a repository
  does not hold makes its lookup throw.
  \<^item> \<^verbatim>\<open>0.10\<close>: start 2013-03-11, end 2016-10-31.
  \<^item> \<^verbatim>\<open>10\<close>: start 2018-04-24, lts 2018-10-30, maintenance 2020-05-19, end 2021-04-30.
  \<^item> \<^verbatim>\<open>12\<close>: start 2019-04-23, lts 2019-10-21, maintenance 2020-11-30, end 2022-04-30.
  \<^item> \<^verbatim>\<open>13\<close>: start 2019-10-22, maintenance 2020-04-01, end 2020-06-01.
  \<^item> \<^verbatim>\<open>14\<close>: start 2020-04-21, lts 2020-10-27, maintenance 2021-10-19, end 2023-04-30.
  \<^item> \<^verbatim>\<open>15\<close>: start 2020-10-20, maintenance 2021-04-01, end 2021-06-01.
\<close>

definition example_schedule :: "(version \<times> NodeScheduleInformation) list" where
  "example_schedule =
     [(''0.10'', \<lparr>s_start = Some 1362960000000, s_end = Some 1477872000000,
                  s_lts = None, s_maintenance = None\<rparr>),
      (''10'', \<lparr>s_start = Some 1524528000000, s_end = Some 1619740800000,
                s_lts = Some 1540857600000, s_maintenance = Some 1589846400000\<rparr>),
      (''12'', \<lparr>s_start = Some 1555977600000, s_end = Some 1651276800000,
                s_lts = Some 1571616000000, s_maintenance = Some 1606694400000\<rparr>),
      (''13'', \<lparr>s_start = Some 1571702400000, s_end = Some 1590969600000,
                s_lts = None, s_maintenance = Some 1585699200000\<rparr>),
      (''14'', \<lparr>s_start = Some 1587427200000, s_end = Some 1682812800000,
                s_lts = Some 1603756800000, s_maintenance = Some 1634601600000\<rparr>),
      (''15'', \<lparr>s_start = Some 1603152000000, s_end = Some 1622505600000,
                s_lts = None, s_maintenance = Some 1617235200000\<rparr>)]"

definition example_releases :: "(version \<times> NodeReleaseInformation) list" where
  "example_releases =
     [(''0.10.0'', \<lparr>r_date = Some 1362960000000, r_lts = None\<rparr>),
      (''14.0.0'', \<lparr>r_date = Some 1587427200000, r_lts = None\<rparr>),
      (''14.15.0'', \<lparr>r_date = Some 1603756800000, r_lts = Some ''Fermium''\<rparr>)]"

definition example_schedule_lookup :: "version \<Rightarrow> error + NodeScheduleInformation" where
  "example_schedule_lookup version =
     (case find (\<lambda>entry. compare_versions version (fst entry) = 0) example_schedule of
        None \<Rightarrow> Inl (CollaboratorError ''getNodeScheduleInformation'')
      | Some entry \<Rightarrow> Inr (snd entry))"

definition example_release_lookup :: "version \<Rightarrow> error + NodeReleaseInformation" where
  "example_release_lookup version =
     (case map_of example_releases version of
        None \<Rightarrow> Inl (CollaboratorError ''getNodeReleaseInformation'')
      | Some release \<Rightarrow> Inr release)"

definition example_world :: collaborators where
  "example_world =
     \<lparr>versionCompare = compare_versions,
      withinRange = (\<lambda>version range_expr. True),
      preloadNodeSchedule = None,
      preloadNodeReleases = None,
      getNodeScheduleIdentifiers = map fst example_schedule,
      getNodeScheduleInformation = example_schedule_lookup,
      getNodeReleaseIdentifiers = map fst example_releases,
      getNodeReleaseInformation = example_release_lookup\<rparr>"

text \<open>The module's variables after a preload, with the clock at \<open>t\<close> and no aggregate found.\<close>

definition loaded_at :: "instant \<Rightarrow> state" where
  "loaded_at t = (initial_state t)\<lparr>preloaded := True\<rparr>"

text \<open>
  A world whose schedule repository answers every lookup with the one given entry (the
  record type allows any four dates, in any order).
\<close>

definition world_with_line :: "NodeScheduleInformation \<Rightarrow> collaborators" where
  "world_with_line meta =
     example_world\<lparr>getNodeScheduleIdentifiers := [''14''],
       getNodeScheduleInformation := (\<lambda>version. Inr meta)\<rparr>"

text \<open>
  \<^verbatim>\<open>filterNodeVersions(filterNodeVersions(versions, cfgA), cfgB)\<close>: the second call runs
  only when the first returns.
\<close>

definition filter_twice ::
  "state \<Rightarrow> collaborators \<Rightarrow> version list \<Rightarrow> Filters \<Rightarrow> Filters \<Rightarrow> error + version list" where
  "filter_twice st env versions cfgA cfgB =
     (case filterNodeVersions st env versions cfgA of
        Inl e \<Rightarrow> Inl e
      | Inr kept \<Rightarrow> filterNodeVersions st env kept cfgB)"

text \<open>
  No predicate that the configuration asks for throws on any of the versions (as after a
  preload that found all three aggregates, on identifiers the repositories hold).
\<close>

definition wanted_checks_return ::
  "state \<Rightarrow> collaborators \<Rightarrow> version list \<Rightarrow> Filters \<Rightarrow> bool" where
  "wanted_checks_return st env versions filters =
     (\<forall>version \<in> set versions. \<forall>check \<in> set (boolean_checks st env version filters).
        fst check \<longrightarrow> (\<exists>answer. snd check = Inr answer))"

text \<open>
  The boolean keys of a configuration and the outcomes of their predicates, in the order
  in which \<^verbatim>\<open>isNodeVersion\<close> tests them.
\<close>

definition wants :: "Filters \<Rightarrow> bool list" where
  "wants filters =
     [truthy (f_active filters), truthy (f_activeOrCurrent filters), truthy (f_current filters),
      truthy (f_esm filters), truthy (f_latestActive filters), truthy (f_latestCurrent filters),
      truthy (f_latestMaintenance filters), truthy (f_lts filters),
      truthy (f_maintained filters), truthy (f_maintainedOrLTS filters),
      truthy (f_maintenance filters), truthy (f_released filters), truthy (f_vercel filters)]"

definition outcomes :: "state \<Rightarrow> collaborators \<Rightarrow> version \<Rightarrow> (error + bool) list" where
  "outcomes st env version =
     [isNodeVersionActive st env version, isNodeVersionActiveOrCurrent st env version,
      isNodeVersionCurrent st env version, Inr (isNodeVersionESM env version),
      isNodeVersionLatestActive st env version, isNodeVersionLatestCurrent st env version,
      isNodeVersionLatestMaintenance st env version, isNodeVersionLTS st env version,
      isNodeVersionMaintained st env version, isNodeVersionMaintainedOrLTS st env version,
      isNodeVersionMaintenance st env version, isNodeVersionReleased st env version,
      Inr (isNodeVersionVercel env version)]"

text \<open>How many of the given predicate outcomes are \<^verbatim>\<open>true\<close>.\<close>

definition holding :: "(error + bool) list \<Rightarrow> nat" where
  "holding results = length (filter (\<lambda>result. result = Inr True) results)"

text \<open>Every predicate that the configuration asks for returns \<^verbatim>\<open>true\<close> on the version.\<close>

definition all_hold :: "state \<Rightarrow> collaborators \<Rightarrow> Filters \<Rightarrow> version \<Rightarrow> bool" where
  "all_hold st env filters version =
     (\<forall>check \<in> set (boolean_checks st env version filters). fst check \<longrightarrow> snd check = Inr True)"

text \<open>
  The module's variables after a preload of the example world with the clock at
  2020-11-03, the date of the repository's own test fixtures (which expect line 15 to be
  the latest current, 14 the latest active and 10 the latest maintenance line).
\<close>

definition fixture_state :: state where
  "fixture_state =
     \<lparr>preloaded = True, nodeVersionLatestCurrent = Some ''15'',
      nodeVersionLatestActive = Some ''14'', nodeVersionLatestMaintenance = Some ''10'',
      now = 1604361600000\<rparr>"

text \<open>The same after a preload with the clock at 2013-06-01, when only line 0.10 existed.\<close>

definition early_state :: state where
  "early_state =
     \<lparr>preloaded = True, nodeVersionLatestCurrent = Some ''0.10'',
      nodeVersionLatestActive = None, nodeVersionLatestMaintenance = None,
      now = 1370044800000\<rparr>"

section \<open>Basic facts\<close>

lemmas comparator_defs = compare_versions_def component_def digit_of_def ranks_above_def

lemmas example_defs = example_world_def example_schedule_lookup_def example_schedule_def
  example_release_lookup_def example_releases_def

lemmas predicate_defs = isNodeVersionActive_def isNodeVersionActiveOrCurrent_def
  isNodeVersionReleased_def isNodeVersionCurrent_def isNodeVersionESM_def isNodeVersionLTS_def
  isNodeVersionMaintained_def isNodeVersionMaintainedOrLTS_def isNodeVersionMaintenance_def
  isNodeVersionVercel_def isNodeVersionLatestActive_def isNodeVersionLatestCurrent_def
  isNodeVersionLatestMaintenance_def getNodeScheduleInformationSafe_def isAbsoluteVersion_def
  in_window_def or_else_def

lemmas filter_defs = filter_twice_def filterNodeVersions_def isNodeVersion_def
  parametric_checks_def boolean_checks_def check_present_def check_string_def truthy_def
  both_keys_def merge_filters_def no_filters_def boolean_only_def

text \<open>The date-window predicates read the preload flag and the clock, never the aggregates.\<close>

lemma predicates_read_flag_and_clock:
  assumes "preloaded st = preloaded st'" and "now st = now st'"
  shows "isNodeVersionCurrent st env v = isNodeVersionCurrent st' env v"
    and "isNodeVersionActive st env v = isNodeVersionActive st' env v"
    and "isNodeVersionMaintenance st env v = isNodeVersionMaintenance st' env v"
  using assms
  by (simp_all add: isNodeVersionCurrent_def isNodeVersionActive_def
      isNodeVersionMaintenance_def split: sum.splits option.splits)

text \<open>A scan returns exactly when its callback returns on every element.\<close>

lemma filter_throwing_returns:
  "(\<forall>x \<in> set xs. \<exists>b. p x = Inr b) \<Longrightarrow>
     filter_throwing p xs = Inr (filter (\<lambda>x. p x = Inr True) xs)"
  by (induction xs) auto

lemma filter_throwing_Inr:
  "filter_throwing p xs = Inr ys \<Longrightarrow>
     ys = filter (\<lambda>x. p x = Inr True) xs \<and> (\<forall>x \<in> set xs. \<exists>b. p x = Inr b)"
  by (induction xs arbitrary: ys) (auto split: sum.splits if_splits)

lemma last_of_filter_None:
  "last_of (filter P xs) = None \<longleftrightarrow> (\<forall>x \<in> set xs. \<not> P x)"
  by (auto simp: last_of_def filter_empty_conv)

section \<open>The latest-of-class predicates before the aggregates exist\<close>

text \<open>
  A preload that a collaborator rejects leaves the module's variables as they were, so
  the aggregates stay \<^verbatim>\<open>undefined\<close>.
\<close>

lemma rejected_preload_changes_nothing:
  "preloadNodeSchedule env = Some e \<Longrightarrow> preloadNodeVersions env st = (Some e, st)"
  "preloadNodeSchedule env = None \<Longrightarrow> preloadNodeReleases env = Some e \<Longrightarrow>
     preloadNodeVersions env st = (Some e, st)"
  by (simp_all add: preloadNodeVersions_def)

text \<open>
  Claim C6. Each of \<^verbatim>\<open>isNodeVersionLatestActive\<close>, \<^verbatim>\<open>isNodeVersionLatestCurrent\<close>
  and \<^verbatim>\<open>isNodeVersionLatestMaintenance\<close>, called while its aggregate has not been
  computed (as in the module before any preload), raises the explicit
  \<^verbatim>\<open>You must await [preloadNodeVersions]\<close> error for that filter: it neither returns
  \<^verbatim>\<open>false\<close> nor consults the comparator.
\<close>

theorem latest_predicates_raise_unpreloaded:
  "(nodeVersionLatestActive st = None \<longrightarrow>
      isNodeVersionLatestActive st env version
        = Inl (MustAwaitPreload ''isNodeVersionLatestActive''))
   \<and> (nodeVersionLatestCurrent st = None \<longrightarrow>
      isNodeVersionLatestCurrent st env version
        = Inl (MustAwaitPreload ''isNodeVersionLatestCurrent''))
   \<and> (nodeVersionLatestMaintenance st = None \<longrightarrow>
      isNodeVersionLatestMaintenance st env version
        = Inl (MustAwaitPreload ''isNodeVersionLatestMaintenance''))"
  by (simp add: isNodeVersionLatestActive_def isNodeVersionLatestCurrent_def
      isNodeVersionLatestMaintenance_def)

text \<open>The module as first loaded: all three raise.\<close>

theorem latest_predicates_raise_unpreloaded_witness:
  "isNodeVersionLatestActive (initial_state 0) example_world ''14''
     = Inl (MustAwaitPreload ''isNodeVersionLatestActive'')
   \<and> isNodeVersionLatestCurrent (initial_state 0) example_world ''14''
     = Inl (MustAwaitPreload ''isNodeVersionLatestCurrent'')
   \<and> isNodeVersionLatestMaintenance (initial_state 0) example_world ''14''
     = Inl (MustAwaitPreload ''isNodeVersionLatestMaintenance'')"
  using latest_predicates_raise_unpreloaded [of "initial_state 0" example_world "''14''"]
  by (simp add: initial_state_def)

section \<open>The safe schedule lookup\<close>

text \<open>
  Claim C8, as stated, has every input outside the sentinel cases return the repository's
  schedule entry. The safe lookup guards the sentinel cases only: \<^verbatim>\<open>99\<close> compares
  greater than \<^verbatim>\<open>0.8\<close>, \<^verbatim>\<open>0.9\<close> and \<^verbatim>\<open>0.11\<close>, the schedule repository does not
  hold it, and the safe lookup throws what the repository's lookup throws.
\<close>

theorem safe_lookup_throws_counterexample:
  "versionCompare example_world ''99'' ''0.8'' = 1
   \<and> versionCompare example_world ''99'' ''0.9'' = 1
   \<and> versionCompare example_world ''99'' ''0.11'' = 1
   \<and> getNodeScheduleInformation example_world ''99''
       = Inl (CollaboratorError ''getNodeScheduleInformation'')
   \<and> getNodeScheduleInformationSafe example_world ''99''
       = Inl (CollaboratorError ''getNodeScheduleInformation'')"
  by (simp add: getNodeScheduleInformationSafe_def example_defs comparator_defs)

text \<open>
  Claim C8, amended. For a version that compares less than \<^verbatim>\<open>0.8\<close>, or equal to
  \<^verbatim>\<open>0.9\<close> or to \<^verbatim>\<open>0.11\<close>, \<^verbatim>\<open>getNodeScheduleInformationSafe\<close> returns the
  not-found sentinel whatever the schedule repository would answer (it is not consulted,
  so nothing it throws can surface); for every other version it passes on the
  repository's outcome: its schedule entry, or what its lookup throws.
\<close>

theorem safe_lookup_sentinel:
  "(versionCompare env version ''0.8'' = - 1
      \<or> versionCompare env version ''0.9'' = 0
      \<or> versionCompare env version ''0.11'' = 0 \<longrightarrow>
        getNodeScheduleInformationSafe (env\<lparr>getNodeScheduleInformation := repository\<rparr>) version
          = Inr None)
   \<and> (\<not> (versionCompare env version ''0.8'' = - 1
          \<or> versionCompare env version ''0.9'' = 0
          \<or> versionCompare env version ''0.11'' = 0) \<longrightarrow>
        getNodeScheduleInformationSafe env version
          = (case getNodeScheduleInformation env version of
               Inl e \<Rightarrow> Inl e
             | Inr meta \<Rightarrow> Inr (Some meta)))"
  by (simp add: getNodeScheduleInformationSafe_def)

text \<open>
  \<^verbatim>\<open>0.6\<close>, \<^verbatim>\<open>0.9\<close> and \<^verbatim>\<open>0.11.16\<close> get the sentinel from a repository that
  throws on every lookup; \<^verbatim>\<open>0.10\<close> gets its entry, and \<^verbatim>\<open>10.5.0\<close>, asked of that
  throwing repository, its error.
\<close>

theorem safe_lookup_sentinel_witness:
  "getNodeScheduleInformationSafe
       (example_world\<lparr>getNodeScheduleInformation :=
          (\<lambda>version. Inl (CollaboratorError ''getNodeScheduleInformation''))\<rparr>) ''0.6''
     = Inr None
   \<and> getNodeScheduleInformationSafe
       (example_world\<lparr>getNodeScheduleInformation :=
          (\<lambda>version. Inl (CollaboratorError ''getNodeScheduleInformation''))\<rparr>) ''0.9''
     = Inr None
   \<and> getNodeScheduleInformationSafe
       (example_world\<lparr>getNodeScheduleInformation :=
          (\<lambda>version. Inl (CollaboratorError ''getNodeScheduleInformation''))\<rparr>) ''0.11.16''
     = Inr None
   \<and> getNodeScheduleInformationSafe example_world ''0.10''
     = Inr (Some \<lparr>s_start = Some 1362960000000, s_end = Some 1477872000000,
                   s_lts = None, s_maintenance = None\<rparr>)
   \<and> getNodeScheduleInformationSafe
       (example_world\<lparr>getNodeScheduleInformation :=
          (\<lambda>version. Inl (CollaboratorError ''getNodeScheduleInformation''))\<rparr>) ''10.5.0''
     = Inl (CollaboratorError ''getNodeScheduleInformation'')"
  using
    safe_lookup_sentinel [of example_world "''0.6''"
      "\<lambda>version. Inl (CollaboratorError ''getNodeScheduleInformation'')"]
    safe_lookup_sentinel [of example_world "''0.9''"
      "\<lambda>version. Inl (CollaboratorError ''getNodeScheduleInformation'')"]
    safe_lookup_sentinel [of example_world "''0.11.16''"
      "\<lambda>version. Inl (CollaboratorError ''getNodeScheduleInformation'')"]
    safe_lookup_sentinel [of example_world "''0.10''"]
    safe_lookup_sentinel
      [of "example_world\<lparr>getNodeScheduleInformation :=
             (\<lambda>version. Inl (CollaboratorError ''getNodeScheduleInformation''))\<rparr>"
          "''10.5.0''"]
  by (simp add: example_defs comparator_defs)

section \<open>The Vercel allow-list\<close>

text \<open>
  Claim C9, as stated, asks the two implementations of \<^verbatim>\<open>isNodeVersionVercel\<close> to agree
  on every input. They differ on \<^verbatim>\<open>14\<close>: the current module lists it, the older one
  does not.
\<close>

theorem vercel_implementations_differ:
  "isNodeVersionVercel example_world ''14'' \<and> \<not> isNodeVersionVercel_legacy example_world ''14''"
  by (simp add: isNodeVersionVercel_def isNodeVersionVercel_legacy_def example_world_def
      comparator_defs)

text \<open>
  Claim C9, amended. \<^verbatim>\<open>isNodeVersionVercel\<close> is membership, by comparator equality, in
  the fixed list \<^verbatim>\<open>10, 12, 14\<close>, and the older implementation in the list
  \<^verbatim>\<open>10, 12\<close>; the two agree on every input that does not compare equal to
  \<^verbatim>\<open>14\<close>. The predicate takes neither the clock nor the module's variables, and of the
  collaborators it reads the comparator only. With the numeric comparator it holds for
  \<^verbatim>\<open>12\<close> and \<^verbatim>\<open>14\<close> and not for \<^verbatim>\<open>13\<close>.
\<close>

theorem vercel_allow_list:
  "isNodeVersionVercel env version
     = (\<exists>line \<in> set [''10'', ''12'', ''14'']. versionCompare env version line = 0)
   \<and> isNodeVersionVercel_legacy env version
     = (\<exists>line \<in> set [''10'', ''12'']. versionCompare env version line = 0)
   \<and> (versionCompare env version ''14'' \<noteq> 0 \<longrightarrow>
        isNodeVersionVercel_legacy env version = isNodeVersionVercel env version)
   \<and> (versionCompare env' = versionCompare env \<longrightarrow>
        isNodeVersionVercel env' version = isNodeVersionVercel env version)
   \<and> isNodeVersionVercel (env\<lparr>versionCompare := compare_versions\<rparr>) ''12''
   \<and> isNodeVersionVercel (env\<lparr>versionCompare := compare_versions\<rparr>) ''14''
   \<and> \<not> isNodeVersionVercel (env\<lparr>versionCompare := compare_versions\<rparr>) ''13''"
  by (simp add: isNodeVersionVercel_def isNodeVersionVercel_legacy_def comparator_defs)

theorem vercel_allow_list_witness:
  "isNodeVersionVercel_legacy example_world ''12.18.3'' = isNodeVersionVercel example_world ''12.18.3''
   \<and> isNodeVersionVercel example_world ''12.18.3''
   \<and> isNodeVersionVercel (example_world\<lparr>getNodeScheduleIdentifiers := []\<rparr>) ''12.18.3''
        = isNodeVersionVercel example_world ''12.18.3''"
  using vercel_allow_list [of example_world "''12.18.3''"
      "example_world\<lparr>getNodeScheduleIdentifiers := []\<rparr>"]
  by (simp add: example_world_def comparator_defs)

section \<open>The LTS predicate\<close>

text \<open>
  Claim C3, as stated, requires a string lts label of every absolute identifier whose line
  is at or after \<^verbatim>\<open>0.8\<close>. The source asks for the label from \<^verbatim>\<open>1\<close> on only:
  \<^verbatim>\<open>0.10.0\<close> is absolute, compares greater than \<^verbatim>\<open>0.8\<close>, has no string label, and
  is an LTS release all the same (the historical-line rule of its schedule entry).
\<close>

theorem lts_label_threshold_counterexample:
  "isAbsoluteVersion ''0.10.0''
   \<and> versionCompare example_world ''0.10.0'' ''0.8'' = 1
   \<and> getNodeReleaseInformation example_world ''0.10.0''
        = Inr \<lparr>r_date = Some 1362960000000, r_lts = None\<rparr>
   \<and> isNodeVersionLTS (loaded_at 1604361600000) example_world ''0.10.0'' = Inr True"
  by (simp add: isNodeVersionLTS_def loaded_at_def initial_state_def
      getNodeScheduleInformationSafe_def isAbsoluteVersion_def example_defs comparator_defs)

text \<open>
  Claim C3, amended. After preload, \<^verbatim>\<open>isNodeVersionLTS\<close> returns \<^verbatim>\<open>true\<close> exactly
  when the safe schedule lookup yields an entry whose lts date is present or whose
  maintenance date is absent, and, for an absolute identifier that compares greater than
  or equal to \<^verbatim>\<open>1\<close>, the release repository records a string lts label for it.
  Whenever the lookups it may consult do not throw, it returns (so: \<^verbatim>\<open>false\<close> in
  every other case).
\<close>

theorem lts_rule:
  assumes "preloaded st"
  shows
    "(isNodeVersionLTS st env version = Inr True \<longleftrightarrow>
        (\<exists>meta. getNodeScheduleInformationSafe env version = Inr (Some meta)
                \<and> (s_lts meta \<noteq> None \<or> s_maintenance meta = None))
        \<and> (isAbsoluteVersion version \<and> versionCompare env version ''1'' \<ge> 0 \<longrightarrow>
             (\<exists>release label. getNodeReleaseInformation env version = Inr release
                              \<and> r_lts release = Some label)))
     \<and> ((isAbsoluteVersion version \<and> versionCompare env version ''1'' \<ge> 0 \<longrightarrow>
             (\<exists>release. getNodeReleaseInformation env version = Inr release))
          \<and> (\<exists>found. getNodeScheduleInformationSafe env version = Inr found) \<longrightarrow>
          (\<exists>answer. isNodeVersionLTS st env version = Inr answer))"
  using assms
  by (auto simp: isNodeVersionLTS_def split: sum.splits option.splits)

text \<open>
  A labelled release of line 14 and the historical line \<^verbatim>\<open>0.10\<close> are LTS; an
  unlabelled release of line 14 and line 13 (a maintenance date, no lts date) are not.
\<close>

theorem lts_rule_witness:
  "isNodeVersionLTS (loaded_at 1604361600000) example_world ''14.15.0'' = Inr True
   \<and> isNodeVersionLTS (loaded_at 1604361600000) example_world ''14.0.0'' = Inr False
   \<and> isNodeVersionLTS (loaded_at 1604361600000) example_world ''13'' = Inr False
   \<and> isNodeVersionLTS (loaded_at 1604361600000) example_world ''0.10'' = Inr True"
  using lts_rule [of "loaded_at 1604361600000" example_world "''14.15.0''"]
    lts_rule [of "loaded_at 1604361600000" example_world "''14.0.0''"]
    lts_rule [of "loaded_at 1604361600000" example_world "''13''"]
    lts_rule [of "loaded_at 1604361600000" example_world "''0.10''"]
  by (auto simp: loaded_at_def initial_state_def getNodeScheduleInformationSafe_def
      isAbsoluteVersion_def example_defs comparator_defs)

section \<open>The three phases\<close>

text \<open>
  Claim C1, as stated, fails on the instant of a phase boundary: every window includes
  both of its ends. Line 14 has distinct lts and maintenance dates, and at its lts instant
  (2020-10-27, strictly between its start and its end) it is Current and Active at once.
\<close>

theorem phases_overlap_at_boundary:
  "getNodeScheduleInformationSafe example_world ''14''
      = Inr (Some \<lparr>s_start = Some 1587427200000, s_end = Some 1682812800000,
                    s_lts = Some 1603756800000, s_maintenance = Some 1634601600000\<rparr>)
   \<and> now (loaded_at 1603756800000) = 1603756800000
   \<and> isNodeVersionCurrent (loaded_at 1603756800000) example_world ''14'' = Inr True
   \<and> isNodeVersionActive (loaded_at 1603756800000) example_world ''14'' = Inr True
   \<and> isNodeVersionMaintenance (loaded_at 1603756800000) example_world ''14'' = Inr False
   \<and> holding [isNodeVersionCurrent (loaded_at 1603756800000) example_world ''14'',
               isNodeVersionActive (loaded_at 1603756800000) example_world ''14'',
               isNodeVersionMaintenance (loaded_at 1603756800000) example_world ''14''] = 2"
  by (simp add: isNodeVersionCurrent_def isNodeVersionActive_def isNodeVersionMaintenance_def
      loaded_at_def initial_state_def getNodeScheduleInformationSafe_def isAbsoluteVersion_def
      in_window_def or_else_def holding_def example_defs comparator_defs)

text \<open>
  Claim C1, amended. After preload, for an identifier whose schedule entry has its lts
  date strictly before its maintenance date, and a clock strictly between the entry's
  start and end that is neither the lts instant nor the maintenance instant, exactly one
  of \<^verbatim>\<open>isNodeVersionCurrent\<close>, \<^verbatim>\<open>isNodeVersionActive\<close>,
  \<^verbatim>\<open>isNodeVersionMaintenance\<close> returns \<^verbatim>\<open>true\<close> and none throws: Current before
  the lts instant, Active between the two, Maintenance after the maintenance instant. For
  an absolute identifier this needs its release to carry a string lts label, which
  \<^verbatim>\<open>isNodeVersionActive\<close> asks for.
\<close>

theorem phases_exactly_one:
  assumes "preloaded st"
    and "getNodeScheduleInformationSafe env version = Inr (Some meta)"
    and "s_start meta = Some s" and "s_end meta = Some e"
    and "s_lts meta = Some l" and "s_maintenance meta = Some m"
    and "l < m"
    and "s < now st" and "now st < e"
    and "now st \<noteq> l" and "now st \<noteq> m"
    and "isAbsoluteVersion version \<longrightarrow>
           (\<exists>release label. getNodeReleaseInformation env version = Inr release
                            \<and> r_lts release = Some label)"
  shows "isNodeVersionCurrent st env version = Inr (now st < l)
       \<and> isNodeVersionActive st env version = Inr (l < now st \<and> now st < m)
       \<and> isNodeVersionMaintenance st env version = Inr (m < now st)
       \<and> holding [isNodeVersionCurrent st env version, isNodeVersionActive st env version,
                   isNodeVersionMaintenance st env version] = 1"
proof -
  have c: "isNodeVersionCurrent st env version = Inr (now st < l)"
    using assms by (auto simp: isNodeVersionCurrent_def in_window_def or_else_def)
  have a: "isNodeVersionActive st env version = Inr (l < now st \<and> now st < m)"
    using assms by (auto simp: isNodeVersionActive_def in_window_def or_else_def)
  have t: "isNodeVersionMaintenance st env version = Inr (m < now st)"
    using assms by (auto simp: isNodeVersionMaintenance_def in_window_def)
  have "holding [Inr (now st < l), Inr (l < now st \<and> now st < m), Inr (m < now st)] = 1"
    using assms(7,10,11) by (auto simp: holding_def)
  with c a t show ?thesis by simp
qed

text \<open>The labelled release \<^verbatim>\<open>14.15.0\<close> on 2020-11-03: Active, and only that.\<close>

theorem phases_exactly_one_witness:
  "isNodeVersionCurrent (loaded_at 1604361600000) example_world ''14.15.0'' = Inr False
   \<and> isNodeVersionActive (loaded_at 1604361600000) example_world ''14.15.0'' = Inr True
   \<and> isNodeVersionMaintenance (loaded_at 1604361600000) example_world ''14.15.0'' = Inr False
   \<and> holding [isNodeVersionCurrent (loaded_at 1604361600000) example_world ''14.15.0'',
               isNodeVersionActive (loaded_at 1604361600000) example_world ''14.15.0'',
               isNodeVersionMaintenance (loaded_at 1604361600000) example_world ''14.15.0''] = 1"
proof -
  have p: "preloaded (loaded_at 1604361600000)"
    and n: "now (loaded_at 1604361600000) = 1604361600000"
    by (simp_all add: loaded_at_def initial_state_def)
  have g: "getNodeScheduleInformationSafe example_world ''14.15.0''
      = Inr (Some \<lparr>s_start = Some 1587427200000, s_end = Some 1682812800000,
                    s_lts = Some 1603756800000, s_maintenance = Some 1634601600000\<rparr>)"
    by (simp add: getNodeScheduleInformationSafe_def example_defs comparator_defs)
  have r: "isAbsoluteVersion ''14.15.0'' \<longrightarrow>
           (\<exists>release label. getNodeReleaseInformation example_world ''14.15.0'' = Inr release
                            \<and> r_lts release = Some label)"
    by (simp add: example_defs)
  show ?thesis
    using phases_exactly_one [OF p g, of 1587427200000 1682812800000 1603756800000 1634601600000]
      r n
    by (simp add: holding_def)
qed

text \<open>
  The two further conditions of the amended claim are needed as well. With the
  maintenance date before the lts date, Current and Maintenance overlap; and an absolute
  release without a string lts label is in no phase while its line is Active.
\<close>

lemma phases_overlap_when_misordered:
  "isNodeVersionCurrent (loaded_at 250)
       (world_with_line \<lparr>s_start = Some 100, s_end = Some 400,
                          s_lts = Some 300, s_maintenance = Some 200\<rparr>) ''14'' = Inr True
   \<and> isNodeVersionMaintenance (loaded_at 250)
       (world_with_line \<lparr>s_start = Some 100, s_end = Some 400,
                          s_lts = Some 300, s_maintenance = Some 200\<rparr>) ''14'' = Inr True"
  by (simp add: isNodeVersionCurrent_def isNodeVersionMaintenance_def loaded_at_def
      initial_state_def getNodeScheduleInformationSafe_def
      in_window_def or_else_def world_with_line_def example_world_def comparator_defs)

lemma no_phase_for_unlabelled_release:
  "isNodeVersionCurrent (loaded_at 1604361600000) example_world ''14.0.0'' = Inr False
   \<and> isNodeVersionActive (loaded_at 1604361600000) example_world ''14.0.0'' = Inr False
   \<and> isNodeVersionMaintenance (loaded_at 1604361600000) example_world ''14.0.0'' = Inr False"
  by (simp add: isNodeVersionCurrent_def isNodeVersionActive_def isNodeVersionMaintenance_def
      loaded_at_def initial_state_def getNodeScheduleInformationSafe_def isAbsoluteVersion_def
      in_window_def or_else_def example_defs comparator_defs)

section \<open>Active support and maintained-or-LTS\<close>

text \<open>
  Claim C2, as stated, speaks of every identifier and every clock value, whatever the
  schedule entry. The entry type allows an lts date that precedes the start date; between
  the two the line is Active (the Active window opens at the lts date) and not
  maintained-or-LTS (which asks for the start date to have passed).
\<close>

theorem active_not_maintainedOrLTS_counterexample:
  "isNodeVersionActive (loaded_at 150)
       (world_with_line \<lparr>s_start = Some 200, s_end = Some 400,
                          s_lts = Some 100, s_maintenance = Some 300\<rparr>) ''14'' = Inr True
   \<and> isNodeVersionMaintainedOrLTS (loaded_at 150)
       (world_with_line \<lparr>s_start = Some 200, s_end = Some 400,
                          s_lts = Some 100, s_maintenance = Some 300\<rparr>) ''14'' = Inr False"
  by (simp add: isNodeVersionActive_def isNodeVersionMaintainedOrLTS_def loaded_at_def
      initial_state_def getNodeScheduleInformationSafe_def isAbsoluteVersion_def
      in_window_def or_else_def world_with_line_def example_world_def comparator_defs)

text \<open>
  Claim C2, amended. For an identifier whose schedule entry has a start and an end date,
  the start date not after the lts date, \<^verbatim>\<open>isNodeVersionActive\<close> returning
  \<^verbatim>\<open>true\<close> implies \<^verbatim>\<open>isNodeVersionMaintainedOrLTS\<close> returning \<^verbatim>\<open>true\<close>, at
  every clock value. For a significant identifier after preload,
  \<^verbatim>\<open>isNodeVersionMaintainedOrLTS\<close> is \<^verbatim>\<open>maintained OR (released AND lts)\<close> of the
  three predicates of those names.
\<close>

theorem active_implies_maintainedOrLTS:
  assumes "getNodeScheduleInformationSafe env version = Inr (Some meta)"
    and "s_start meta = Some s" and "s_end meta = Some e"
    and "\<forall>l. s_lts meta = Some l \<longrightarrow> s \<le> l"
  shows "(isNodeVersionActive st env version = Inr True \<longrightarrow>
            isNodeVersionMaintainedOrLTS st env version = Inr True)
       \<and> (preloaded st \<and> \<not> isAbsoluteVersion version \<longrightarrow>
            (\<exists>maintained released lts.
                isNodeVersionMaintained st env version = Inr maintained
              \<and> isNodeVersionReleased st env version = Inr released
              \<and> isNodeVersionLTS st env version = Inr lts
              \<and> isNodeVersionMaintainedOrLTS st env version
                  = Inr (maintained \<or> (released \<and> lts))))"
proof (intro conjI impI)
  assume act: "isNodeVersionActive st env version = Inr True"
  then have p: "preloaded st"
    by (auto simp: isNodeVersionActive_def split: if_splits)
  from act assms(1) obtain l where l: "s_lts meta = Some l" and "l \<le> now st"
    by (auto simp: isNodeVersionActive_def in_window_def
        split: if_splits sum.splits option.splits)
  with assms(4) have "s \<le> now st" by fastforce
  with p l assms(1-3) show "isNodeVersionMaintainedOrLTS st env version = Inr True"
    by (simp add: isNodeVersionMaintainedOrLTS_def)
next
  assume "preloaded st \<and> \<not> isAbsoluteVersion version"
  with assms(1-3) show "\<exists>maintained released lts.
                isNodeVersionMaintained st env version = Inr maintained
              \<and> isNodeVersionReleased st env version = Inr released
              \<and> isNodeVersionLTS st env version = Inr lts
              \<and> isNodeVersionMaintainedOrLTS st env version
                  = Inr (maintained \<or> (released \<and> lts))"
    by (auto simp: isNodeVersionMaintained_def isNodeVersionReleased_def isNodeVersionLTS_def
        isNodeVersionMaintainedOrLTS_def in_window_def)
qed

text \<open>Line 14 on 2020-11-03: Active, and maintained-or-LTS.\<close>

theorem active_implies_maintainedOrLTS_witness:
  "isNodeVersionActive (loaded_at 1604361600000) example_world ''14'' = Inr True
   \<and> isNodeVersionMaintainedOrLTS (loaded_at 1604361600000) example_world ''14'' = Inr True"
proof -
  have g: "getNodeScheduleInformationSafe example_world ''14''
      = Inr (Some \<lparr>s_start = Some 1587427200000, s_end = Some 1682812800000,
                    s_lts = Some 1603756800000, s_maintenance = Some 1634601600000\<rparr>)"
    by (simp add: getNodeScheduleInformationSafe_def example_defs comparator_defs)
  have a: "isNodeVersionActive (loaded_at 1604361600000) example_world ''14'' = Inr True"
    using g by (simp add: isNodeVersionActive_def loaded_at_def initial_state_def
        isAbsoluteVersion_def in_window_def or_else_def)
  show ?thesis
    using active_implies_maintainedOrLTS [OF g, of 1587427200000 1682812800000
        "loaded_at 1604361600000"] a
    by simp
qed

text \<open>
  For an absolute identifier the composite reading does not hold: the unlabelled release
  \<^verbatim>\<open>14.0.0\<close>, after the end of line 14, is neither maintained nor LTS, and is
  maintained-or-LTS by its line's schedule entry.
\<close>

lemma maintainedOrLTS_of_unlabelled_release:
  "isNodeVersionMaintainedOrLTS (loaded_at 1704067200000) example_world ''14.0.0'' = Inr True
   \<and> isNodeVersionMaintained (loaded_at 1704067200000) example_world ''14.0.0'' = Inr False
   \<and> isNodeVersionReleased (loaded_at 1704067200000) example_world ''14.0.0'' = Inr True
   \<and> isNodeVersionLTS (loaded_at 1704067200000) example_world ''14.0.0'' = Inr False"
  by (simp add: isNodeVersionMaintainedOrLTS_def isNodeVersionMaintained_def
      isNodeVersionReleased_def isNodeVersionLTS_def loaded_at_def
      initial_state_def getNodeScheduleInformationSafe_def isAbsoluteVersion_def
      in_window_def example_defs comparator_defs)

section \<open>Entries without a date\<close>

text \<open>
  Claim C7, as stated, promises that a date-window predicate never raises on an
  identifier whose schedule lookup succeeds and whose entry lacks the date.
  \<^verbatim>\<open>isNodeVersionActive\<close> asks the release repository first when the identifier is
  absolute: \<^verbatim>\<open>13.99.0\<close> resolves to line 13, which has no lts date, and the predicate
  raises what the release lookup throws.
\<close>

theorem dateless_entry_raises_counterexample:
  "getNodeScheduleInformationSafe example_world ''13.99.0''
      = Inr (Some \<lparr>s_start = Some 1571702400000, s_end = Some 1590969600000,
                    s_lts = None, s_maintenance = Some 1585699200000\<rparr>)
   \<and> preloaded (loaded_at 1604361600000)
   \<and> isNodeVersionActive (loaded_at 1604361600000) example_world ''13.99.0''
      = Inl (CollaboratorError ''getNodeReleaseInformation'')"
  by (simp add: isNodeVersionActive_def loaded_at_def initial_state_def
      getNodeScheduleInformationSafe_def isAbsoluteVersion_def example_defs comparator_defs)

text \<open>
  Claim C7, amended. After preload, for an identifier whose schedule lookup succeeds, a
  date-window predicate whose required date is absent from the entry returns
  \<^verbatim>\<open>false\<close> and does not raise: \<^verbatim>\<open>isNodeVersionMaintenance\<close> without a maintenance
  date, \<^verbatim>\<open>isNodeVersionActive\<close> without an lts date (for an absolute identifier,
  provided its release lookup succeeds as well), and likewise the other window predicates
  without their start or end.
\<close>

theorem dateless_entry_is_false:
  assumes "preloaded st"
    and "getNodeScheduleInformationSafe env version = Inr (Some meta)"
  shows "(s_maintenance meta = None \<or> s_end meta = None \<longrightarrow>
            isNodeVersionMaintenance st env version = Inr False)
       \<and> ((s_lts meta = None \<or> (s_maintenance meta = None \<and> s_end meta = None))
            \<and> (isAbsoluteVersion version \<longrightarrow>
                 (\<exists>release. getNodeReleaseInformation env version = Inr release)) \<longrightarrow>
            isNodeVersionActive st env version = Inr False)
       \<and> (s_start meta = None
            \<or> (s_lts meta = None \<and> s_maintenance meta = None \<and> s_end meta = None) \<longrightarrow>
            isNodeVersionCurrent st env version = Inr False)
       \<and> (s_start meta = None \<or> (s_maintenance meta = None \<and> s_end meta = None) \<longrightarrow>
            isNodeVersionActiveOrCurrent st env version = Inr False)
       \<and> (s_start meta = None \<or> s_end meta = None \<longrightarrow>
            isNodeVersionMaintained st env version = Inr False
            \<and> isNodeVersionMaintainedOrLTS st env version = Inr False)"
  using assms
  by (auto simp: isNodeVersionMaintenance_def isNodeVersionActive_def isNodeVersionCurrent_def
      isNodeVersionActiveOrCurrent_def isNodeVersionMaintained_def
      isNodeVersionMaintainedOrLTS_def in_window_def or_else_def split: option.splits)

text \<open>
  Line \<^verbatim>\<open>0.10\<close> has neither an lts nor a maintenance date: it is neither in
  Maintenance nor Active, and neither is its release \<^verbatim>\<open>0.10.0\<close>.
\<close>

theorem dateless_entry_is_false_witness:
  "isNodeVersionMaintenance (loaded_at 1362960000000) example_world ''0.10'' = Inr False
   \<and> isNodeVersionActive (loaded_at 1362960000000) example_world ''0.10'' = Inr False
   \<and> isNodeVersionActive (loaded_at 1362960000000) example_world ''0.10.0'' = Inr False"
proof -
  have p: "preloaded (loaded_at 1362960000000)"
    by (simp add: loaded_at_def initial_state_def)
  have g: "getNodeScheduleInformationSafe example_world ''0.10''
      = Inr (Some \<lparr>s_start = Some 1362960000000, s_end = Some 1477872000000,
                   s_lts = None, s_maintenance = None\<rparr>)"
    and g': "getNodeScheduleInformationSafe example_world ''0.10.0''
      = Inr (Some \<lparr>s_start = Some 1362960000000, s_end = Some 1477872000000,
                   s_lts = None, s_maintenance = None\<rparr>)"
    by (simp_all add: getNodeScheduleInformationSafe_def example_defs comparator_defs)
  show ?thesis
    using dateless_entry_is_false [OF p g] dateless_entry_is_false [OF p g']
    by (simp add: isAbsoluteVersion_def example_defs)
qed

section \<open>Sequential filtering\<close>

text \<open>
  When every check that is asked for returns, the chain of checks returns their
  conjunction.
\<close>

lemma run_checks_returns:
  "(\<forall>check \<in> set checks. fst check \<longrightarrow> (\<exists>answer. snd check = Inr answer)) \<Longrightarrow>
     run_checks checks = Inr (\<forall>check \<in> set checks. fst check \<longrightarrow> snd check = Inr True)"
proof (induction checks)
  case Nil
  then show ?case by simp
next
  case (Cons check rest)
  obtain wanted outcome where c: "check = (wanted, outcome)" by (cases check)
  from Cons.prems have rest: "\<forall>check \<in> set rest. fst check \<longrightarrow> (\<exists>answer. snd check = Inr answer)"
    by simp
  show ?case
  proof (cases wanted)
    case True
    with Cons.prems c obtain answer where "outcome = Inr answer" by auto
    with True c Cons.IH [OF rest] show ?thesis by auto
  next
    case False
    with c Cons.IH [OF rest] show ?thesis by simp
  qed
qed

text \<open>The boolean checks pair each key with its outcome; a merged key is the disjunction.\<close>

lemma boolean_checks_zip:
  "boolean_checks st env version filters = zip (wants filters) (outcomes st env version)"
  by (simp add: boolean_checks_def wants_def outcomes_def)

lemma truthy_both_keys: "truthy (both_keys a b) \<longleftrightarrow> truthy a \<or> truthy b"
  by (simp add: both_keys_def truthy_def)

lemma wants_merge_filters:
  "wants (merge_filters a b) = map2 (\<or>) (wants a) (wants b)"
  by (simp add: wants_def merge_filters_def truthy_both_keys)

lemma length_wants [simp]: "length (wants filters) = 13"
  by (simp add: wants_def)

lemma length_outcomes [simp]: "length (outcomes st env version) = 13"
  by (simp add: outcomes_def)

lemma zip_either:
  "length wa = length os \<Longrightarrow> length wb = length os \<Longrightarrow>
     (\<forall>check \<in> set (zip (map2 (\<or>) wa wb) os). fst check \<longrightarrow> Q (snd check))
       \<longleftrightarrow> (\<forall>check \<in> set (zip wa os). fst check \<longrightarrow> Q (snd check))
            \<and> (\<forall>check \<in> set (zip wb os). fst check \<longrightarrow> Q (snd check))"
proof (induction os arbitrary: wa wb)
  case Nil
  then show ?case by simp
next
  case (Cons outcome os)
  then obtain a wa' b wb' where "wa = a # wa'" "wb = b # wb'"
    by (cases wa; cases wb) auto
  with Cons show ?case by auto
qed

text \<open>A boolean-only configuration skips the five parametric checks.\<close>

lemma isNodeVersion_boolean_only:
  "boolean_only filters \<Longrightarrow>
     isNodeVersion st env version filters = run_checks (boolean_checks st env version filters)"
  by (simp add: isNodeVersion_def boolean_only_def parametric_checks_def check_present_def
      check_string_def)

lemma boolean_only_merge_filters: "boolean_only (merge_filters a b)"
  by (simp add: boolean_only_def merge_filters_def)

lemma isNodeVersion_returns:
  assumes "boolean_only filters" and "wanted_checks_return st env versions filters"
    and "version \<in> set versions"
  shows "isNodeVersion st env version filters = Inr (all_hold st env filters version)"
  using assms run_checks_returns [of "boolean_checks st env version filters"]
  by (simp add: isNodeVersion_boolean_only wanted_checks_return_def all_hold_def)

lemma wanted_checks_return_merge:
  "wanted_checks_return st env versions (merge_filters a b)
     \<longleftrightarrow> wanted_checks_return st env versions a \<and> wanted_checks_return st env versions b"
  unfolding wanted_checks_return_def boolean_checks_zip wants_merge_filters
  by (subst zip_either) auto

lemma all_hold_merge:
  "all_hold st env (merge_filters a b) version
     \<longleftrightarrow> all_hold st env a version \<and> all_hold st env b version"
  unfolding all_hold_def boolean_checks_zip wants_merge_filters
  by (subst zip_either) auto

text \<open>Without a throw, filtering keeps exactly the versions on which the configuration holds.\<close>

lemma filterNodeVersions_returns:
  assumes "boolean_only filters" and "wanted_checks_return st env versions filters"
  shows "filterNodeVersions st env versions filters
           = Inr (filter (all_hold st env filters) versions)"
proof -
  note returns = isNodeVersion_returns [OF assms]
  have "\<forall>version \<in> set versions. \<exists>b. isNodeVersion st env version filters = Inr b"
    by (simp add: returns)
  then have "filterNodeVersions st env versions filters
      = Inr (filter (\<lambda>version. isNodeVersion st env version filters = Inr True) versions)"
    unfolding filterNodeVersions_def by (rule filter_throwing_returns)
  also have "filter (\<lambda>version. isNodeVersion st env version filters = Inr True) versions
      = filter (all_hold st env filters) versions"
    by (rule filter_cong) (simp_all add: returns)
  finally show ?thesis .
qed

lemma wanted_checks_return_subset:
  "wanted_checks_return st env versions filters \<Longrightarrow> set kept \<subseteq> set versions \<Longrightarrow>
     wanted_checks_return st env kept filters"
  by (auto simp: wanted_checks_return_def)

text \<open>
  Claim C4, as stated, equates the two for every list and every pair of boolean-only
  configurations. The conjunction tests its keys in the fixed order of
  \<^verbatim>\<open>isNodeVersion\<close>, so it can reach a predicate that throws where the sequential
  filter has already dropped the version: before preload, filtering \<^verbatim>\<open>13\<close> by
  \<^verbatim>\<open>vercel\<close> and then by \<^verbatim>\<open>active\<close> returns the empty list, and filtering it by
  both at once throws.
\<close>

theorem sequential_filtering_counterexample:
  "boolean_only (no_filters\<lparr>f_vercel := Some True\<rparr>)
   \<and> boolean_only (no_filters\<lparr>f_active := Some True\<rparr>)
   \<and> filter_twice (initial_state 1604361600000) example_world [''13'']
        (no_filters\<lparr>f_vercel := Some True\<rparr>) (no_filters\<lparr>f_active := Some True\<rparr>) = Inr []
   \<and> filterNodeVersions (initial_state 1604361600000) example_world [''13'']
        (merge_filters (no_filters\<lparr>f_vercel := Some True\<rparr>) (no_filters\<lparr>f_active := Some True\<rparr>))
       = Inl (MustAwaitPreload ''isNodeVersionActive'')"
  by (simp add: filter_defs initial_state_def predicate_defs example_world_def comparator_defs)

text \<open>The same after preload, on a release that the release repository does not hold.\<close>

lemma sequential_filtering_differs_after_preload:
  "filter_twice fixture_state example_world [''13.99.0'']
        (no_filters\<lparr>f_vercel := Some True\<rparr>) (no_filters\<lparr>f_active := Some True\<rparr>) = Inr []
   \<and> filterNodeVersions fixture_state example_world [''13.99.0'']
        (merge_filters (no_filters\<lparr>f_vercel := Some True\<rparr>) (no_filters\<lparr>f_active := Some True\<rparr>))
       = Inl (CollaboratorError ''getNodeReleaseInformation'')"
  by (simp add: filter_defs fixture_state_def predicate_defs example_defs comparator_defs)

text \<open>
  Claim C4, amended. For every list and every two boolean-only configurations such that
  no predicate asked for by either throws on any version of the list, filtering by the
  first and then by the second equals filtering by their conjunction, and both return:
  the versions on which both configurations hold, in the order of the list.
\<close>

theorem sequential_filtering_is_conjunction:
  assumes "boolean_only cfgA" and "boolean_only cfgB"
    and "wanted_checks_return st env versions cfgA"
    and "wanted_checks_return st env versions cfgB"
  shows "filter_twice st env versions cfgA cfgB
           = filterNodeVersions st env versions (merge_filters cfgA cfgB)
       \<and> filterNodeVersions st env versions (merge_filters cfgA cfgB)
           = Inr (filter (\<lambda>version. isNodeVersion st env version cfgA = Inr True
                                   \<and> isNodeVersion st env version cfgB = Inr True) versions)"
proof -
  let ?A = "all_hold st env cfgA" and ?B = "all_hold st env cfgB"
  have first: "filterNodeVersions st env versions cfgA = Inr (filter ?A versions)"
    using assms(1,3) by (rule filterNodeVersions_returns)
  have "wanted_checks_return st env (filter ?A versions) cfgB"
    using assms(4) by (rule wanted_checks_return_subset) simp
  with assms(2)
  have second: "filterNodeVersions st env (filter ?A versions) cfgB
      = Inr (filter ?B (filter ?A versions))"
    by (rule filterNodeVersions_returns)
  have "wanted_checks_return st env versions (merge_filters cfgA cfgB)"
    using assms(3,4) by (simp add: wanted_checks_return_merge)
  with boolean_only_merge_filters
  have merged: "filterNodeVersions st env versions (merge_filters cfgA cfgB)
      = Inr (filter (all_hold st env (merge_filters cfgA cfgB)) versions)"
    by (rule filterNodeVersions_returns)
  have same: "filter (all_hold st env (merge_filters cfgA cfgB)) versions
      = filter ?B (filter ?A versions)"
    unfolding filter_filter by (rule filter_cong) (auto simp: all_hold_merge)
  have each: "filter ?B (filter ?A versions)
      = filter (\<lambda>version. isNodeVersion st env version cfgA = Inr True
                         \<and> isNodeVersion st env version cfgB = Inr True) versions"
    unfolding filter_filter
  proof (rule filter_cong)
    fix version
    assume "version \<in> set versions"
    then have "isNodeVersion st env version cfgA = Inr (?A version)"
      and "isNodeVersion st env version cfgB = Inr (?B version)"
      by (simp_all add: isNodeVersion_returns [OF assms(1,3)] isNodeVersion_returns [OF assms(2,4)])
    then show "(?A version \<and> ?B version)
        = (isNodeVersion st env version cfgA = Inr True
           \<and> isNodeVersion st env version cfgB = Inr True)"
      by simp
  qed simp
  have twice: "filter_twice st env versions cfgA cfgB = Inr (filter ?B (filter ?A versions))"
    by (simp add: filter_twice_def first second)
  show ?thesis
    by (simp only: twice merged same each)
qed

text \<open>The fixture lines that are LTS and maintained on 2020-11-03: 10, 12 and 14.\<close>

theorem sequential_filtering_is_conjunction_witness:
  "filter_twice fixture_state example_world (getNodeScheduleIdentifiers example_world)
       (no_filters\<lparr>f_lts := Some True\<rparr>) (no_filters\<lparr>f_maintained := Some True\<rparr>)
     = Inr [''10'', ''12'', ''14'']
   \<and> filterNodeVersions fixture_state example_world (getNodeScheduleIdentifiers example_world)
       (merge_filters (no_filters\<lparr>f_lts := Some True\<rparr>) (no_filters\<lparr>f_maintained := Some True\<rparr>))
     = Inr [''10'', ''12'', ''14'']"
proof -
  have a: "boolean_only (no_filters\<lparr>f_lts := Some True\<rparr>)"
    and b: "boolean_only (no_filters\<lparr>f_maintained := Some True\<rparr>)"
    by (simp_all add: boolean_only_def no_filters_def)
  have ra: "wanted_checks_return fixture_state example_world
      (getNodeScheduleIdentifiers example_world) (no_filters\<lparr>f_lts := Some True\<rparr>)"
    and rb: "wanted_checks_return fixture_state example_world
      (getNodeScheduleIdentifiers example_world) (no_filters\<lparr>f_maintained := Some True\<rparr>)"
    by (auto simp: wanted_checks_return_def boolean_checks_def truthy_def no_filters_def
        fixture_state_def isNodeVersionLTS_def isNodeVersionMaintained_def
        getNodeScheduleInformationSafe_def isAbsoluteVersion_def
        example_defs comparator_defs)
  have v: "filterNodeVersions fixture_state example_world
      (getNodeScheduleIdentifiers example_world)
      (merge_filters (no_filters\<lparr>f_lts := Some True\<rparr>) (no_filters\<lparr>f_maintained := Some True\<rparr>))
     = Inr [''10'', ''12'', ''14'']"
    by (simp add: filter_defs fixture_state_def isNodeVersionLTS_def isNodeVersionMaintained_def
        getNodeScheduleInformationSafe_def isAbsoluteVersion_def in_window_def
        example_defs comparator_defs)
  show ?thesis
    using sequential_filtering_is_conjunction [OF a b ra rb] v by simp
qed

section \<open>Preload and the aggregates\<close>

text \<open>
  A preload that resolved ran its three scans to the end, each with the flag set and the
  clock untouched, and assigned the last element of each.
\<close>

lemma preloadNodeVersions_resolved:
  assumes "preloadNodeVersions env st = (None, st')"
  shows "\<exists>currents actives maintenances.
           filter_throwing (isNodeVersionCurrent (st\<lparr>preloaded := True\<rparr>) env)
               (getNodeScheduleIdentifiers env) = Inr currents
         \<and> filter_throwing (isNodeVersionActive (st\<lparr>preloaded := True\<rparr>) env)
               (getNodeScheduleIdentifiers env) = Inr actives
         \<and> filter_throwing (isNodeVersionMaintenance (st\<lparr>preloaded := True\<rparr>) env)
               (getNodeScheduleIdentifiers env) = Inr maintenances
         \<and> st' = st\<lparr>preloaded := True, nodeVersionLatestCurrent := last_of currents,
                     nodeVersionLatestActive := last_of actives,
                     nodeVersionLatestMaintenance := last_of maintenances\<rparr>"
proof -
  let ?st1 = "st\<lparr>preloaded := True\<rparr>" and ?ids = "getNodeScheduleIdentifiers env"
  have a: "isNodeVersionActive (st\<lparr>preloaded := True, nodeVersionLatestCurrent := c\<rparr>) env
      = isNodeVersionActive ?st1 env" for c
    by (rule ext, rule predicates_read_flag_and_clock) simp_all
  have m: "isNodeVersionMaintenance
        (st\<lparr>preloaded := True, nodeVersionLatestCurrent := c, nodeVersionLatestActive := d\<rparr>) env
      = isNodeVersionMaintenance ?st1 env" for c d
    by (rule ext, rule predicates_read_flag_and_clock) simp_all
  from assms have s: "preloadNodeSchedule env = None"
    by (cases "preloadNodeSchedule env") (simp_all add: preloadNodeVersions_def)
  from assms s have r: "preloadNodeReleases env = None"
    by (cases "preloadNodeReleases env") (simp_all add: preloadNodeVersions_def)
  obtain currents where
    c: "filter_throwing (isNodeVersionCurrent ?st1 env) ?ids = Inr currents"
    using assms s r
    by (cases "filter_throwing (isNodeVersionCurrent ?st1 env) ?ids")
      (simp_all add: preloadNodeVersions_def Let_def)
  obtain actives where
    a': "filter_throwing (isNodeVersionActive ?st1 env) ?ids = Inr actives"
    using assms s r c
    by (cases "filter_throwing (isNodeVersionActive ?st1 env) ?ids")
      (simp_all add: preloadNodeVersions_def Let_def a)
  obtain maintenances where
    m': "filter_throwing (isNodeVersionMaintenance ?st1 env) ?ids = Inr maintenances"
    using assms s r c a'
    by (cases "filter_throwing (isNodeVersionMaintenance ?st1 env) ?ids")
      (simp_all add: preloadNodeVersions_def Let_def a m)
  have "st' = st\<lparr>preloaded := True, nodeVersionLatestCurrent := last_of currents,
                     nodeVersionLatestActive := last_of actives,
                     nodeVersionLatestMaintenance := last_of maintenances\<rparr>"
    using assms s r c a' m' by (simp add: preloadNodeVersions_def Let_def a m)
  with c a' m' show ?thesis by blast
qed

text \<open>The last kept element, by position: it is kept, and nothing after it is.\<close>

lemma last_of_filter_Some:
  "last_of (filter P xs) = Some x \<longleftrightarrow>
     (\<exists>before after. xs = before @ x # after \<and> P x \<and> (\<forall>y \<in> set after. \<not> P y))"
proof
  assume found: "last_of (filter P xs) = Some x"
  then have "\<exists>y \<in> set xs. P y"
    by (auto simp: last_of_def filter_empty_conv split: if_splits)
  then obtain before y after where
    split: "xs = before @ y # after" "P y" "\<forall>z \<in> set after. \<not> P z"
    using split_list_last_prop [of xs P] by blast
  then have "filter P after = []"
    by (simp add: filter_empty_conv)
  with split(1,2) have "last_of (filter P xs) = Some y"
    by (simp add: last_of_def)
  with found split
  show "\<exists>before after. xs = before @ x # after \<and> P x \<and> (\<forall>y \<in> set after. \<not> P y)"
    by auto
next
  assume "\<exists>before after. xs = before @ x # after \<and> P x \<and> (\<forall>y \<in> set after. \<not> P y)"
  then obtain before after where
    split: "xs = before @ x # after" "P x" "\<forall>z \<in> set after. \<not> P z"
    by blast
  then have "filter P after = []"
    by (simp add: filter_empty_conv)
  with split(1,2) show "last_of (filter P xs) = Some x"
    by (simp add: last_of_def)
qed

lemma last_of_scan_None:
  assumes "filter_throwing p xs = Inr ys"
  shows "last_of ys = None \<longleftrightarrow> (\<forall>x \<in> set xs. p x = Inr False)"
proof -
  from filter_throwing_Inr [OF assms]
  have ys: "ys = filter (\<lambda>x. p x = Inr True) xs"
    and returns: "\<forall>x \<in> set xs. \<exists>b. p x = Inr b"
    by simp_all
  have "(p x \<noteq> Inr True) = (p x = Inr False)" if "x \<in> set xs" for x
    using returns that by auto
  then show ?thesis
    by (simp add: ys last_of_filter_None)
qed

text \<open>
  The preload resolves when both collaborators resolve and no lookup throws on an
  identifier of the schedule.
\<close>

lemma preload_completes:
  assumes "preloadNodeSchedule env = None" and "preloadNodeReleases env = None"
    and "\<forall>version \<in> set (getNodeScheduleIdentifiers env).
           (\<exists>found. getNodeScheduleInformationSafe env version = Inr found)
           \<and> (isAbsoluteVersion version \<longrightarrow>
                (\<exists>release. getNodeReleaseInformation env version = Inr release))"
  shows "\<exists>st'. preloadNodeVersions env st = (None, st')"
proof -
  let ?st = "st\<lparr>preloaded := True\<rparr>"
  let ?ids = "getNodeScheduleIdentifiers env"
  have c: "\<forall>version \<in> set ?ids. \<exists>b. isNodeVersionCurrent st1 env version = Inr b"
    if "preloaded st1" for st1
    using assms(3) that by (force simp: isNodeVersionCurrent_def split: option.splits)
  have a: "\<forall>version \<in> set ?ids. \<exists>b. isNodeVersionActive st1 env version = Inr b"
    if "preloaded st1" for st1
    using assms(3) that by (force simp: isNodeVersionActive_def split: option.splits)
  have m: "\<forall>version \<in> set ?ids. \<exists>b. isNodeVersionMaintenance st1 env version = Inr b"
    if "preloaded st1" for st1
    using assms(3) that by (force simp: isNodeVersionMaintenance_def split: option.splits)
  show ?thesis
    using assms(1,2)
    by (simp add: preloadNodeVersions_def Let_def filter_throwing_returns c a m)
qed

text \<open>The two preloads of the example world.\<close>

lemma example_preload_2020:
  "preloadNodeVersions example_world (initial_state 1604361600000) = (None, fixture_state)"
  by (simp add: preloadNodeVersions_def initial_state_def fixture_state_def last_of_def
      isNodeVersionCurrent_def isNodeVersionActive_def isNodeVersionMaintenance_def
      getNodeScheduleInformationSafe_def isAbsoluteVersion_def in_window_def or_else_def
      example_defs comparator_defs)

lemma example_preload_2013:
  "preloadNodeVersions example_world (initial_state 1370044800000) = (None, early_state)"
  by (simp add: preloadNodeVersions_def initial_state_def early_state_def last_of_def
      isNodeVersionCurrent_def isNodeVersionActive_def isNodeVersionMaintenance_def
      getNodeScheduleInformationSafe_def isAbsoluteVersion_def in_window_def or_else_def
      example_defs comparator_defs)

text \<open>
  Claim C5. When \<^verbatim>\<open>preloadNodeVersions\<close> has completed, each of the three aggregates
  is the last identifier, by position in the schedule repository's list, for which its
  own predicate (\<^verbatim>\<open>isNodeVersionCurrent\<close>, \<^verbatim>\<open>isNodeVersionActive\<close>,
  \<^verbatim>\<open>isNodeVersionMaintenance\<close>) holds at the reference clock, which the preload leaves
  as it was; each comes from its own scan of the whole list, and is \<^verbatim>\<open>undefined\<close> when
  its scan finds nothing. (\<open>last_of_filter_Some\<close> spells out "last by position";
  \<open>preload_completes\<close> says when the preload completes.)
\<close>

theorem preload_aggregates:
  assumes "preloadNodeVersions env st = (None, st')"
  shows "nodeVersionLatestCurrent st'
           = last_of (filter (\<lambda>version. isNodeVersionCurrent st' env version = Inr True)
                        (getNodeScheduleIdentifiers env))
       \<and> nodeVersionLatestActive st'
           = last_of (filter (\<lambda>version. isNodeVersionActive st' env version = Inr True)
                        (getNodeScheduleIdentifiers env))
       \<and> nodeVersionLatestMaintenance st'
           = last_of (filter (\<lambda>version. isNodeVersionMaintenance st' env version = Inr True)
                        (getNodeScheduleIdentifiers env))
       \<and> preloaded st' \<and> now st' = now st"
proof -
  from preloadNodeVersions_resolved [OF assms] obtain currents actives maintenances where
    c: "filter_throwing (isNodeVersionCurrent (st\<lparr>preloaded := True\<rparr>) env)
          (getNodeScheduleIdentifiers env) = Inr currents"
    and a: "filter_throwing (isNodeVersionActive (st\<lparr>preloaded := True\<rparr>) env)
          (getNodeScheduleIdentifiers env) = Inr actives"
    and m: "filter_throwing (isNodeVersionMaintenance (st\<lparr>preloaded := True\<rparr>) env)
          (getNodeScheduleIdentifiers env) = Inr maintenances"
    and st': "st' = st\<lparr>preloaded := True, nodeVersionLatestCurrent := last_of currents,
                     nodeVersionLatestActive := last_of actives,
                     nodeVersionLatestMaintenance := last_of maintenances\<rparr>"
    by blast
  have same: "preloaded st' = preloaded (st\<lparr>preloaded := True\<rparr>)"
    "now st' = now (st\<lparr>preloaded := True\<rparr>)"
    by (simp_all add: st')
  have "isNodeVersionCurrent st' env = isNodeVersionCurrent (st\<lparr>preloaded := True\<rparr>) env"
    and "isNodeVersionActive st' env = isNodeVersionActive (st\<lparr>preloaded := True\<rparr>) env"
    and "isNodeVersionMaintenance st' env
           = isNodeVersionMaintenance (st\<lparr>preloaded := True\<rparr>) env"
    by (rule ext, rule predicates_read_flag_and_clock [OF same])+
  then show ?thesis
    using filter_throwing_Inr [OF c] filter_throwing_Inr [OF a] filter_throwing_Inr [OF m]
    by (simp add: st')
qed

text \<open>
  The preload of the example world on 2020-11-03 finds the aggregates of the
  repository's test fixtures: 15, 14 and 10.
\<close>

theorem preload_aggregates_witness:
  "preloadNodeVersions example_world (initial_state 1604361600000) = (None, fixture_state)
   \<and> last_of (filter (\<lambda>version. isNodeVersionCurrent fixture_state example_world version = Inr True)
        (getNodeScheduleIdentifiers example_world)) = Some ''15''
   \<and> last_of (filter (\<lambda>version. isNodeVersionActive fixture_state example_world version = Inr True)
        (getNodeScheduleIdentifiers example_world)) = Some ''14''
   \<and> last_of (filter (\<lambda>version. isNodeVersionMaintenance fixture_state example_world version = Inr True)
        (getNodeScheduleIdentifiers example_world)) = Some ''10''"
  using preload_aggregates [OF example_preload_2020] example_preload_2020
  by (simp add: fixture_state_def)

section \<open>The latest-of-class predicates after a preload that found nothing\<close>

text \<open>
  Claim C10. After a preload that completed, a latest-of-class predicate raises the
  \<^verbatim>\<open>You must await [preloadNodeVersions]\<close> error exactly when no identifier of the
  schedule satisfies the corresponding predicate (current, active or maintenance) at the
  clock of the preload: the aggregate is then the last element of an empty list, that is
  \<^verbatim>\<open>undefined\<close>. So the error does not show that preload was skipped.
\<close>

theorem latest_raises_after_preload:
  assumes "preloadNodeVersions env st = (None, st')"
  shows "(isNodeVersionLatestCurrent st' env version
            = Inl (MustAwaitPreload ''isNodeVersionLatestCurrent'')
          \<longleftrightarrow> (\<forall>line \<in> set (getNodeScheduleIdentifiers env).
                 isNodeVersionCurrent st' env line = Inr False))
       \<and> (isNodeVersionLatestActive st' env version
            = Inl (MustAwaitPreload ''isNodeVersionLatestActive'')
          \<longleftrightarrow> (\<forall>line \<in> set (getNodeScheduleIdentifiers env).
                 isNodeVersionActive st' env line = Inr False))
       \<and> (isNodeVersionLatestMaintenance st' env version
            = Inl (MustAwaitPreload ''isNodeVersionLatestMaintenance'')
          \<longleftrightarrow> (\<forall>line \<in> set (getNodeScheduleIdentifiers env).
                 isNodeVersionMaintenance st' env line = Inr False))
       \<and> preloaded st'"
proof -
  from preloadNodeVersions_resolved [OF assms] obtain currents actives maintenances where
    c: "filter_throwing (isNodeVersionCurrent (st\<lparr>preloaded := True\<rparr>) env)
          (getNodeScheduleIdentifiers env) = Inr currents"
    and a: "filter_throwing (isNodeVersionActive (st\<lparr>preloaded := True\<rparr>) env)
          (getNodeScheduleIdentifiers env) = Inr actives"
    and m: "filter_throwing (isNodeVersionMaintenance (st\<lparr>preloaded := True\<rparr>) env)
          (getNodeScheduleIdentifiers env) = Inr maintenances"
    and st': "st' = st\<lparr>preloaded := True, nodeVersionLatestCurrent := last_of currents,
                     nodeVersionLatestActive := last_of actives,
                     nodeVersionLatestMaintenance := last_of maintenances\<rparr>"
    by blast
  have same: "preloaded st' = preloaded (st\<lparr>preloaded := True\<rparr>)"
    "now st' = now (st\<lparr>preloaded := True\<rparr>)"
    by (simp_all add: st')
  have eqs: "isNodeVersionCurrent (st\<lparr>preloaded := True\<rparr>) env = isNodeVersionCurrent st' env"
    "isNodeVersionActive (st\<lparr>preloaded := True\<rparr>) env = isNodeVersionActive st' env"
    "isNodeVersionMaintenance (st\<lparr>preloaded := True\<rparr>) env
           = isNodeVersionMaintenance st' env"
    by (rule ext, rule predicates_read_flag_and_clock [OF same, symmetric])+
  have agg: "nodeVersionLatestCurrent st' = last_of currents"
    "nodeVersionLatestActive st' = last_of actives"
    "nodeVersionLatestMaintenance st' = last_of maintenances"
    "preloaded st'"
    by (simp_all add: st')
  note 1 = last_of_scan_None [OF c [unfolded eqs]]
    and 2 = last_of_scan_None [OF a [unfolded eqs]]
    and 3 = last_of_scan_None [OF m [unfolded eqs]]
  show ?thesis
    using agg(4)
    by (simp add: isNodeVersionLatestCurrent_def isNodeVersionLatestActive_def
        isNodeVersionLatestMaintenance_def agg(1-3) 1 [symmetric] 2 [symmetric] 3 [symmetric]
        split: option.splits)
qed

text \<open>
  On 2013-06-01 the example schedule has a current line and neither an active nor a
  maintenance line: after the preload \<^verbatim>\<open>isNodeVersionLatestCurrent\<close> answers, and the
  other two raise.
\<close>

theorem latest_raises_after_preload_witness:
  "preloadNodeVersions example_world (initial_state 1370044800000) = (None, early_state)
   \<and> preloaded early_state
   \<and> isNodeVersionLatestCurrent early_state example_world ''0.10'' = Inr True
   \<and> isNodeVersionLatestActive early_state example_world ''0.10''
       = Inl (MustAwaitPreload ''isNodeVersionLatestActive'')
   \<and> isNodeVersionLatestMaintenance early_state example_world ''0.10''
       = Inl (MustAwaitPreload ''isNodeVersionLatestMaintenance'')"
  using latest_raises_after_preload [OF example_preload_2013, of "''0.10''"]
    example_preload_2013
  by (simp add: early_state_def isNodeVersionLatestCurrent_def isNodeVersionLatestActive_def
      isNodeVersionLatestMaintenance_def example_world_def comparator_defs)

end
